theory Spec2Isabelle
  imports Complex_Main "HOL-Library.Sublist"
begin

section \<open>JavaScript values\<close>

text \<open>
  The sources are TypeScript working on values of type \<open>any\<close>. Primitive values are
  modelled by \<open>prim\<close>; numbers are IEEE doubles in the source and real numbers here
  (no arithmetic is performed on them by the modelled code, only comparisons with
  literals; \<open>NaN\<close> appears as \<open>None\<close> where a numeric coercion is taken).
\<close>

datatype prim = PUndefined | PNull | PBool bool | PNum real | PStr string

text \<open>JavaScript truthiness of a primitive (\<open>!!v\<close>).\<close>

fun prim_truthy :: "prim \<Rightarrow> bool" where
  "prim_truthy PUndefined = False"
| "prim_truthy PNull = False"
| "prim_truthy (PBool b) = b"
| "prim_truthy (PNum n) = (n \<noteq> 0)"
| "prim_truthy (PStr s) = (s \<noteq> [])"

text \<open>The nullish coalescing operator \<open>a ?? b\<close>.\<close>

definition nullish_or :: "prim \<Rightarrow> prim \<Rightarrow> prim" where
  "nullish_or a b = (if a = PUndefined \<or> a = PNull then b else a)"

text \<open>
  The numeric coercion \<open>+v\<close> (ToNumber). \<open>None\<close> stands for \<open>NaN\<close>. The conversion
  of a non-empty string (the StringToNumber grammar of the language) is a parameter
  \<open>strToNum\<close>; the empty string converts to \<open>0\<close>.
\<close>

fun to_number :: "(string \<Rightarrow> real option) \<Rightarrow> prim \<Rightarrow> real option" where
  "to_number strToNum PUndefined = None"
| "to_number strToNum PNull = Some 0"
| "to_number strToNum (PBool b) = Some (if b then 1 else 0)"
| "to_number strToNum (PNum n) = Some n"
| "to_number strToNum (PStr s) = (if s = [] then Some 0 else strToNum s)"

text \<open>\<open>m?.startsWith?.(p)\<close>: only a string has a \<open>startsWith\<close> member.\<close>

fun starts_with :: "prim \<Rightarrow> string \<Rightarrow> bool" where
  "starts_with (PStr s) p = prefix p s"
| "starts_with _ p = False"

text \<open>\<open>v > 0\<close>: the operand is coerced to a number; a comparison with \<open>NaN\<close> is false.\<close>

definition greater_than_zero :: "(string \<Rightarrow> real option) \<Rightarrow> prim \<Rightarrow> bool" where
  "greater_than_zero strToNum v = (case to_number strToNum v of None \<Rightarrow> False | Some n \<Rightarrow> 0 < n)"


text \<open>
  Values of type \<open>any\<close> with structure: arrays, plain objects (their own enumerable
  members as an association list in enumeration order, keys distinct) and functions,
  whose bodies are opaque.
\<close>

datatype jsv =
    Undefined
  | Null
  | JBool bool
  | JNum real
  | JStr string
  | JArr "jsv list"
  | JObj "(string \<times> jsv) list"
  | JFunction

fun truthy :: "jsv \<Rightarrow> bool" where
  "truthy Undefined = False"
| "truthy Null = False"
| "truthy (JBool b) = b"
| "truthy (JNum n) = (n \<noteq> 0)"
| "truthy (JStr s) = (s \<noteq> [])"
| "truthy (JArr xs) = True"
| "truthy (JObj kvs) = True"
| "truthy JFunction = True"

fun typeof :: "jsv \<Rightarrow> string" where
  "typeof Undefined = ''undefined''"
| "typeof Null = ''object''"
| "typeof (JBool b) = ''boolean''"
| "typeof (JNum n) = ''number''"
| "typeof (JStr s) = ''string''"
| "typeof (JArr xs) = ''object''"
| "typeof (JObj kvs) = ''object''"
| "typeof JFunction = ''function''"

fun prim_typeof :: "prim \<Rightarrow> string" where
  "prim_typeof PUndefined = ''undefined''"
| "prim_typeof PNull = ''object''"
| "prim_typeof (PBool b) = ''boolean''"
| "prim_typeof (PNum n) = ''number''"
| "prim_typeof (PStr s) = ''string''"

text \<open>
  Thrown values: \<open>Error\<close> objects with their message, by class. For each of them
  \<open>error instanceof Error ? error.message : String(error)\<close> is the message.
\<close>

datatype js_error =
    NodeOperationError string
  | TypeError string
  | SyntaxError string
  | GenericError string

fun errorMessage :: "js_error \<Rightarrow> string" where
  "errorMessage (NodeOperationError m) = m"
| "errorMessage (TypeError m) = m"
| "errorMessage (SyntaxError m) = m"
| "errorMessage (GenericError m) = m"

fun isNodeOperationError :: "js_error \<Rightarrow> bool" where
  "isNodeOperationError (NodeOperationError m) = True"
| "isNodeOperationError _ = False"

section \<open>Retry classification (n8nDefaultFailedAttemptHandler.ts, n8nLlmFailedAttemptHandler.ts)\<close>

text \<open>
  The error value handed to the failed-attempt handlers, reduced to the members the
  handlers read. A member that is absent is \<open>PUndefined\<close>; \<open>err_response_status\<close> is
  \<open>error.response?.status\<close>. \<open>err_functionality\<close> tells what \<open>instanceof NodeApiError\<close>
  gives for the value: \<open>Some f\<close> for an instance of the host library's \<open>NodeApiError\<close>,
  whose member \<open>functionality\<close> is \<open>f\<close>, and \<open>None\<close> for any other object. The handlers
  receive \<open>attempt_error option\<close>: \<open>None\<close> is an error value without members (\<open>null\<close>,
  \<open>undefined\<close>).
\<close>

record attempt_error =
  err_message :: prim
  err_name :: prim
  err_code :: prim
  err_response_status :: prim
  err_status :: prim
  err_retriesLeft :: prim
  err_functionality :: "string option"

text \<open>Optional member access \<open>error?.f\<close>.\<close>

definition error_member :: "(attempt_error \<Rightarrow> prim) \<Rightarrow> attempt_error option \<Rightarrow> prim" where
  "error_member f error = (case error of None \<Rightarrow> PUndefined | Some e \<Rightarrow> f e)"

definition STATUS_NO_RETRY :: "real list" where
  "STATUS_NO_RETRY = [400, 401, 402, 403, 404, 405, 406, 407, 409]"

text \<open>\<open>STATUS_NO_RETRY.includes(+status)\<close>; \<open>NaN\<close> is not an element of the table.\<close>

definition includes_status :: "(string \<Rightarrow> real option) \<Rightarrow> prim \<Rightarrow> bool" where
  "includes_status strToNum status =
     (case to_number strToNum status of None \<Rightarrow> False | Some n \<Rightarrow> n \<in> set STATUS_NO_RETRY)"

text \<open>
  \<open>n8nDefaultFailedAttemptHandler\<close>: \<open>Inl error\<close> is \<open>throw error\<close> (the error is
  not retried), \<open>Inr ()\<close> is the normal return.
\<close>

definition n8nDefaultFailedAttemptHandler ::
  "(string \<Rightarrow> real option) \<Rightarrow> attempt_error option \<Rightarrow> attempt_error option + unit" where
  "n8nDefaultFailedAttemptHandler strToNum error =
     (if starts_with (error_member err_message error) ''Cancel''
         \<or> starts_with (error_member err_message error) ''AbortError''
         \<or> error_member err_name error = PStr ''AbortError''
      then Inl error
      else if error_member err_code error = PStr ''ECONNABORTED''
      then Inl error
      else
        let status = nullish_or (error_member err_response_status error) (error_member err_status error)
        in if prim_truthy status \<and> includes_status strToNum status then Inl error else Inr ())"

text \<open>
  What the statement \<open>throw new NodeApiError(ctx.getNode(), e, { functionality })\<close>
  throws. The constructor belongs to the host library (\<open>n8n-workflow\<close>), which is not
  part of the repository, so the handler below takes it as a parameter. The library's
  constructor is \<open>newNodeApiError\<close>: handed an instance of \<open>NodeApiError\<close> it returns that
  instance as it is, whatever the options say; handed \<open>null\<close> or \<open>undefined\<close> it throws
  a \<open>TypeError\<close>; handed any other error object it makes a new \<open>NodeApiError\<close> around
  it, with the functionality of the options.
\<close>

datatype handler_thrown =
    ConstructorTypeError
  | GivenError attempt_error
  | NodeApiError attempt_error string

definition newNodeApiError :: "attempt_error option \<Rightarrow> string \<Rightarrow> handler_thrown" where
  "newNodeApiError e functionalityOption =
     (case e of
        None \<Rightarrow> ConstructorTypeError
      | Some errorResponse \<Rightarrow>
          (case err_functionality errorResponse of
             Some f \<Rightarrow> GivenError errorResponse
           | None \<Rightarrow> NodeApiError errorResponse functionalityOption))"

text \<open>
  \<open>makeN8nLlmFailedAttemptHandler(ctx, handler)\<close> applied to an error. The optional
  custom handler either returns or throws some error value. \<open>newApiError e f\<close> is what
  \<open>throw new NodeApiError(ctx.getNode(), e, { functionality: f })\<close> throws.
\<close>

definition makeN8nLlmFailedAttemptHandler ::
  "(string \<Rightarrow> real option) \<Rightarrow> (attempt_error option \<Rightarrow> string \<Rightarrow> 't)
     \<Rightarrow> (attempt_error option \<Rightarrow> attempt_error option + unit) option
     \<Rightarrow> attempt_error option \<Rightarrow> 't + unit" where
  "makeN8nLlmFailedAttemptHandler strToNum newApiError handler error =
     (case (case handler of None \<Rightarrow> Inr () | Some h \<Rightarrow> h error) of
        Inl e \<Rightarrow> Inl (newApiError e ''configuration-node'')
      | Inr _ \<Rightarrow>
          (case n8nDefaultFailedAttemptHandler strToNum error of
             Inl e \<Rightarrow> Inl (newApiError e ''configuration-node'')
           | Inr _ \<Rightarrow>
               if greater_than_zero strToNum (error_member err_retriesLeft error) then Inr ()
               else Inl (newApiError error ''configuration-node'')))"

text \<open>
  The member \<open>functionality\<close> of what the handler throws (a \<open>TypeError\<close> has none).
\<close>

fun thrown_functionality :: "handler_thrown \<Rightarrow> string option" where
  "thrown_functionality ConstructorTypeError = None"
| "thrown_functionality (GivenError e) = err_functionality e"
| "thrown_functionality (NodeApiError e f) = Some f"

text \<open>
  The classification in the words of the specification: an explicit cancellation or
  abort signal, and the numeric HTTP-like status of an error.
\<close>

definition cancellation_signal :: "attempt_error option \<Rightarrow> bool" where
  "cancellation_signal error =
     (starts_with (error_member err_message error) ''Cancel''
      \<or> starts_with (error_member err_message error) ''AbortError''
      \<or> error_member err_name error = PStr ''AbortError''
      \<or> error_member err_code error = PStr ''ECONNABORTED'')"

definition http_status :: "(string \<Rightarrow> real option) \<Rightarrow> attempt_error option \<Rightarrow> real option" where
  "http_status strToNum error =
     to_number strToNum (nullish_or (error_member err_response_status error) (error_member err_status error))"

definition non_retryable :: "(string \<Rightarrow> real option) \<Rightarrow> attempt_error option \<Rightarrow> bool" where
  "non_retryable strToNum error =
     (cancellation_signal error
      \<or> http_status strToNum error \<in> Some ` {400, 401, 402, 403, 404, 405, 406, 407, 409})"

text \<open>
  Error values for the closed examples: an attempt that failed with status 503 and has
  the given number of retries left; and an attempt without retries left whose error is
  a \<open>NodeApiError\<close> of the default functionality \<open>regular\<close> (its status is kept in the
  member \<open>httpCode\<close>, which the handlers do not read). None of the examples converts a
  string to a number; \<open>unparsed\<close> takes every string for \<open>NaN\<close>.
\<close>

definition unparsed :: "string \<Rightarrow> real option" where
  "unparsed s = None"

definition service_unavailable :: "real \<Rightarrow> attempt_error" where
  "service_unavailable retriesLeft =
     \<lparr>err_message = PStr ''Service Unavailable'', err_name = PStr ''Error'',
      err_code = PUndefined, err_response_status = PNum 503, err_status = PUndefined,
      err_retriesLeft = PNum retriesLeft, err_functionality = None\<rparr>"

definition rejected_request :: attempt_error where
  "rejected_request =
     \<lparr>err_message = PStr ''Forbidden - perhaps check your credentials?'',
      err_name = PStr ''NodeApiError'', err_code = PUndefined,
      err_response_status = PUndefined, err_status = PUndefined,
      err_retriesLeft = PNum 0, err_functionality = Some ''regular''\<rparr>"

section \<open>Curly-bracket escaping (helpers.ts)\<close>

text \<open>
  \<open>text.replace(/(?<!{){{{(?!{)/g, "{{{{")\<close> and its counterpart for the closing
  bracket, for a bracket character \<open>b\<close>: a global replace scans the string from the
  left; where three \<open>b\<close> stand that are neither preceded nor followed by \<open>b\<close>, they
  are replaced by four and the scan goes on behind them; elsewhere the character is
  kept. \<open>prev\<close> is the character before the scan position (what the lookbehind reads).
\<close>

fun replaceTriple :: "char \<Rightarrow> char option \<Rightarrow> string \<Rightarrow> string" where
  "replaceTriple b prev [] = []"
| "replaceTriple b prev (x # xs) =
     (if prev \<noteq> Some b \<and> x = b \<and> take 2 xs = [b, b]
         \<and> (case drop 2 xs of [] \<Rightarrow> True | y # _ \<Rightarrow> y \<noteq> b)
      then [b, b, b, b] @ replaceTriple b (Some b) (drop 2 xs)
      else x # replaceTriple b (Some x) xs)"

text \<open>
  \<open>text.replace(/(?<!{){(?!{)/g, "{{")\<close> and its counterpart: a \<open>b\<close> that is
  neither preceded nor followed by \<open>b\<close> is doubled.
\<close>

fun replaceSingle :: "char \<Rightarrow> char option \<Rightarrow> string \<Rightarrow> string" where
  "replaceSingle b prev [] = []"
| "replaceSingle b prev (x # xs) =
     (if prev \<noteq> Some b \<and> x = b \<and> (case xs of [] \<Rightarrow> True | y # _ \<Rightarrow> y \<noteq> b)
      then [b, b] @ replaceSingle b (Some b) xs
      else x # replaceSingle b (Some x) xs)"

text \<open>\<open>escapeSingleCurlyBrackets\<close>; \<open>None\<close> is \<open>undefined\<close>.\<close>

definition escapeSingleCurlyBrackets :: "string option \<Rightarrow> string option" where
  "escapeSingleCurlyBrackets text =
     (case text of
        None \<Rightarrow> None
      | Some t \<Rightarrow>
          Some (replaceSingle (CHR ''}'') None
                 (replaceSingle (CHR ''{'') None
                   (replaceTriple (CHR ''}'') None
                     (replaceTriple (CHR ''{'') None t)))))"

text \<open>
  The maximal runs of equal characters of a string, with their lengths, and the string
  of a list of runs. The escaping policy on one run: a single bracket is doubled, a
  doubled bracket is kept, three brackets become four, longer runs are kept.
\<close>

fun runs :: "'a list \<Rightarrow> ('a \<times> nat) list" where
  "runs [] = []"
| "runs (x # xs) =
     (case runs xs of
        [] \<Rightarrow> [(x, 1)]
      | (y, n) # rest \<Rightarrow> if x = y then (y, Suc n) # rest else (x, 1) # (y, n) # rest)"

definition unruns :: "('a \<times> nat) list \<Rightarrow> 'a list" where
  "unruns rs = concat (map (\<lambda>(c, n). replicate n c) rs)"

fun escaped_run :: "char \<times> nat \<Rightarrow> char \<times> nat" where
  "escaped_run (c, n) =
     (if c = CHR ''{'' \<or> c = CHR ''}''
      then (c, if n = 1 then 2 else if n = 3 then 4 else n)
      else (c, n))"


text \<open>Auxiliary notions for the proofs about runs.\<close>

fun reduced :: "('a \<times> nat) list \<Rightarrow> bool" where
  "reduced [] = True"
| "reduced [(c, n)] = (0 < n)"
| "reduced ((c, n) # (d, m) # rs) = (0 < n \<and> c \<noteq> d \<and> reduced ((d, m) # rs))"

definition not_starting :: "'a \<Rightarrow> 'a list \<Rightarrow> bool" where
  "not_starting b xs = (case xs of [] \<Rightarrow> True | y # _ \<Rightarrow> y \<noteq> b)"

fun triple_run :: "char \<Rightarrow> char \<times> nat \<Rightarrow> char \<times> nat" where
  "triple_run b (c, n) = (c, if c = b \<and> n = 3 then 4 else n)"

fun single_run :: "char \<Rightarrow> char \<times> nat \<Rightarrow> char \<times> nat" where
  "single_run b (c, n) = (c, if c = b \<and> n = 1 then 2 else n)"


section \<open>Tool discovery (helpers.ts, N8nTool.ts)\<close>

text \<open>
  A connected tool object, reduced to the members the discovery and the orchestrator
  read: its class (what \<open>instanceof N8nTool\<close> tests), \<open>name\<close>, \<open>description\<close>, and the
  three invocation members \<open>func\<close>, \<open>call\<close> and \<open>_call\<close>. An absent member is
  \<open>Undefined\<close>.
\<close>

datatype tool_class = PlainObject | N8nToolClass | DynamicToolClass

record tool =
  t_class :: tool_class
  t_name :: jsv
  t_description :: jsv
  t_func :: jsv
  t_call :: jsv
  t_underscore_call :: jsv

text \<open>
  A candidate delivered by the host: a primitive value, a function, or an object.
\<close>

datatype candidate = PrimitiveValue prim | FunctionValue | ObjectValue tool

fun cand_truthy :: "candidate \<Rightarrow> bool" where
  "cand_truthy (PrimitiveValue p) = prim_truthy p"
| "cand_truthy FunctionValue = True"
| "cand_truthy (ObjectValue t) = True"

fun cand_typeof :: "candidate \<Rightarrow> string" where
  "cand_typeof (PrimitiveValue p) = prim_typeof p"
| "cand_typeof FunctionValue = ''function''"
| "cand_typeof (ObjectValue t) = ''object''"

text \<open>
  What \<open>ctx.getInputConnectionData(NodeConnectionType.AiTool, 0)\<close> resolves to: one
  value or an array. An element of the array is a \<open>Toolkit\<close> (with the tools its
  \<open>getTools()\<close> returns), an inner array (which \<open>flatMap\<close> flattens by one level), or
  any other value.
\<close>

datatype entry = ToolkitEntry "candidate list" | ArrayEntry "candidate list" | ItemEntry candidate

datatype raw_tools = RawToolkit "candidate list" | RawItem candidate | RawArray "entry list"

fun raw_truthy :: "raw_tools \<Rightarrow> bool" where
  "raw_truthy (RawItem c) = cand_truthy c"
| "raw_truthy (RawToolkit ts) = True"
| "raw_truthy (RawArray es) = True"

fun flattenEntry :: "entry \<Rightarrow> candidate list" where
  "flattenEntry (ToolkitEntry ts) = ts"
| "flattenEntry (ArrayEntry cs) = cs"
| "flattenEntry (ItemEntry c) = [c]"

text \<open>
  \<open>connectedTools\<close>: \<open>toolsArray.flatMap(...)\<close> over the array, or over the one-element
  array of a value that is not an array.
\<close>

fun connectedTools :: "raw_tools \<Rightarrow> candidate list" where
  "connectedTools (RawArray es) = concat (map flattenEntry es)"
| "connectedTools (RawToolkit ts) = ts"
| "connectedTools (RawItem c) = [c]"

text \<open>
  \<open>N8nTool.asDynamicTool()\<close>: \<open>this.func.bind(this)\<close> throws a \<open>TypeError\<close> unless
  \<open>func\<close> is a function. The \<open>DynamicTool\<close> of the tool library carries the name, the
  description and the bound function, and inherits the methods \<open>call\<close> and \<open>_call\<close>.
\<close>

definition asDynamicTool :: "tool \<Rightarrow> js_error + tool" where
  "asDynamicTool t =
     (if t_func t = JFunction
      then Inr \<lparr>t_class = DynamicToolClass, t_name = t_name t, t_description = t_description t,
                t_func = JFunction, t_call = JFunction, t_underscore_call = JFunction\<rparr>
      else Inl (TypeError ''this.func.bind is not a function''))"

text \<open>
  \<open>tool.description = escapeSingleCurlyBrackets(tool.description) ?? tool.description\<close>,
  run when the description is truthy: a description that is not a string has no
  \<open>replace\<close> method, and the call throws a \<open>TypeError\<close>.
\<close>

definition escapeDescription :: "tool \<Rightarrow> js_error + tool" where
  "escapeDescription t =
     (case t_description t of
        JStr s \<Rightarrow>
          (case escapeSingleCurlyBrackets (Some s) of
             Some s' \<Rightarrow> Inr (t\<lparr>t_description := JStr s'\<rparr>)
           | None \<Rightarrow> Inr t)
      | _ \<Rightarrow> Inl (TypeError ''result.replace is not a function''))"

definition duplicateMessage :: "string \<Rightarrow> string" where
  "duplicateMessage n =
     ''You have multiple tools with the same name: '' @ [CHR 0x27] @ n @ [CHR 0x27]
       @ '', please rename them to avoid conflicts''"

text \<open>
  The body of the \<open>try\<close> block of the loop over the connected tools, for one candidate:
  the names seen after it (a name stays recorded when a later step of the body throws),
  and either the error thrown, or the tool pushed to \<open>finalTools\<close>, or nothing
  (\<open>continue\<close>). Among the candidates only an object is truthy with
  \<open>typeof\<close> equal to \<open>object\<close>, and among its possible names only a string passes
  the second test, so the two last branches are never taken.
\<close>

definition tryTool :: "bool \<Rightarrow> bool \<Rightarrow> string set \<Rightarrow> candidate
    \<Rightarrow> string set \<times> (js_error + tool option)" where
  "tryTool convertStructuredTool escapeCurlyBrackets seenNames c =
     (if \<not> cand_truthy c \<or> cand_typeof c \<noteq> ''object''
      then (seenNames, Inr None)
      else
        (case c of
           ObjectValue t \<Rightarrow>
             (if \<not> truthy (t_name t) \<or> typeof (t_name t) \<noteq> ''string''
              then (seenNames, Inr None)
              else
                (case t_name t of
                   JStr n \<Rightarrow>
                     if n \<in> seenNames
                     then (seenNames, Inl (NodeOperationError (duplicateMessage n)))
                     else
                       (case (if escapeCurlyBrackets \<and> truthy (t_description t)
                              then escapeDescription t else Inr t) of
                          Inl e \<Rightarrow> (insert n seenNames, Inl e)
                        | Inr t' \<Rightarrow>
                            if convertStructuredTool \<and> t_class t' = N8nToolClass
                            then (case asDynamicTool t' of
                                    Inl e \<Rightarrow> (insert n seenNames, Inl e)
                                  | Inr d \<Rightarrow> (insert n seenNames, Inr (Some d)))
                            else (insert n seenNames, Inr (Some t')))
                 | _ \<Rightarrow> (seenNames, Inr None)))
         | _ \<Rightarrow> (seenNames, Inr None)))"

text \<open>
  The loop \<open>for (const tool of connectedTools)\<close> with its \<open>catch\<close>: an error of the
  body is thrown on only when it is a \<open>NodeOperationError\<close> whose message includes
  \<open>multiple tools with the same name\<close>; after any other error the loop goes on with the
  next candidate.
\<close>

fun processTools :: "bool \<Rightarrow> bool \<Rightarrow> string set \<Rightarrow> tool list \<Rightarrow> candidate list
    \<Rightarrow> js_error + tool list" where
  "processTools convertStructuredTool escapeCurlyBrackets seenNames finalTools [] = Inr finalTools"
| "processTools convertStructuredTool escapeCurlyBrackets seenNames finalTools (c # cs) =
     (case tryTool convertStructuredTool escapeCurlyBrackets seenNames c of
        (seenNames', Inr None) \<Rightarrow>
          processTools convertStructuredTool escapeCurlyBrackets seenNames' finalTools cs
      | (seenNames', Inr (Some t)) \<Rightarrow>
          processTools convertStructuredTool escapeCurlyBrackets seenNames' (finalTools @ [t]) cs
      | (seenNames', Inl toolError) \<Rightarrow>
          if isNodeOperationError toolError
             \<and> sublist ''multiple tools with the same name'' (errorMessage toolError)
          then Inl toolError
          else processTools convertStructuredTool escapeCurlyBrackets seenNames' finalTools cs)"

text \<open>
  \<open>getConnectedTools(ctx, enforceUniqueNames, convertStructuredTool, escapeCurlyBrackets)\<close>.
  The first argument is the outcome of \<open>ctx.getInputConnectionData\<close>. The outer \<open>catch\<close>
  throws a \<open>NodeOperationError\<close> on and wraps any other error in one. The telemetry
  calls (\<open>logAiEvent\<close>, which catches its own failures) are left out.
\<close>

definition getConnectedTools :: "js_error + raw_tools \<Rightarrow> bool \<Rightarrow> bool \<Rightarrow> bool
    \<Rightarrow> js_error + candidate list" where
  "getConnectedTools input enforceUniqueNames convertStructuredTool escapeCurlyBrackets =
     (case
        (case input of
           Inl e \<Rightarrow> Inl e
         | Inr rawConnectedTools \<Rightarrow>
             if \<not> raw_truthy rawConnectedTools then Inr []
             else if \<not> enforceUniqueNames then Inr (connectedTools rawConnectedTools)
             else map_sum id (map ObjectValue)
                    (processTools convertStructuredTool escapeCurlyBrackets {} []
                       (connectedTools rawConnectedTools)))
      of
        Inr tools \<Rightarrow> Inr tools
      | Inl error \<Rightarrow>
          if isNodeOperationError error then Inl error
          else Inl (NodeOperationError (''Failed to get connected tools: '' @ errorMessage error)))"

text \<open>
  The candidates that pass the per-tool validation of the loop, and their names.
\<close>

fun valid_name :: "candidate \<Rightarrow> string option" where
  "valid_name (ObjectValue t) =
     (case t_name t of JStr n \<Rightarrow> if n = [] then None else Some n | _ \<Rightarrow> None)"
| "valid_name _ = None"

definition valid_names :: "candidate list \<Rightarrow> string list" where
  "valid_names cs = List.map_filter valid_name cs"


text \<open>
  The tool, if any, that the loop body pushes for a valid candidate whose name was not
  seen before.
\<close>

definition pushedTool :: "bool \<Rightarrow> bool \<Rightarrow> candidate \<Rightarrow> tool option" where
  "pushedTool convertStructuredTool escapeCurlyBrackets c =
     (case snd (tryTool convertStructuredTool escapeCurlyBrackets {} c) of
        Inr r \<Rightarrow> r
      | Inl e \<Rightarrow> None)"

text \<open>
  The first name of a list that occurs in \<open>seen\<close> or earlier in the list: the name the
  duplicate check of the loop stops at.
\<close>

fun first_duplicate :: "string set \<Rightarrow> string list \<Rightarrow> string option" where
  "first_duplicate seen [] = None"
| "first_duplicate seen (n # ns) =
     (if n \<in> seen then Some n else first_duplicate (insert n seen) ns)"




section \<open>Schema simplification (schemaParsing.ts)\<close>




























section \<open>Tool-calling orchestration (SapAiCoreLlm.execute)\<close>

text \<open>
  A tool-call directive of a model response, a model response, and a message of the
  conversation.
\<close>

record tool_call =
  tc_id :: jsv
  tc_name :: jsv
  tc_args :: jsv

text \<open>\<open>resp_tool_calls\<close> is \<open>None\<close> when the response has no \<open>tool_calls\<close> member.\<close>

record response =
  resp_content :: jsv
  resp_tool_calls :: "tool_call list option"

record message =
  msg_role :: string
  msg_content :: jsv
  msg_tool_calls :: "tool_call list option"
  msg_tool_call_id :: "jsv option"

text \<open>
  An entry of \<open>toolResults\<close>: \<open>{ tool_call_id, tool_name, result }\<close> after an invocation
  that returned, \<open>{ tool_call_id, tool_name, error }\<close> after one that threw.
\<close>

datatype tool_result =
    ToolSuccess jsv jsv jsv
  | ToolFailure jsv jsv string

fun carries_error :: "tool_result \<Rightarrow> bool" where
  "carries_error (ToolFailure i n e) = True"
| "carries_error (ToolSuccess i n r) = False"

fun carries_output :: "tool_result \<Rightarrow> bool" where
  "carries_output (ToolSuccess i n r) = True"
| "carries_output (ToolFailure i n e) = False"

fun result_call_id :: "tool_result \<Rightarrow> jsv" where
  "result_call_id (ToolSuccess i n r) = i"
| "result_call_id (ToolFailure i n e) = i"

text \<open>
  The collaborators of one orchestration run. \<open>bindTools\<close> returns the tool-bound
  endpoint (its \<open>invoke\<close>) or throws; \<open>invoke\<close> is the \<open>invoke\<close> of the unbound model;
  \<open>toolInvoke k tool args\<close> is the outcome of \<open>tool.invoke(args)\<close> for the directive at
  position \<open>k\<close> of the response, so that two invocations of one tool may differ.
\<close>

record collaborators =
  bindTools :: "tool list \<Rightarrow> js_error + (message list \<Rightarrow> js_error + response)"
  invoke :: "message list \<Rightarrow> js_error + response"
  toolInvoke :: "nat \<Rightarrow> tool \<Rightarrow> jsv \<Rightarrow> js_error + jsv"

text \<open>
  \<open>a === b\<close> for a tool name and the name of a directive. Object identity is not
  modelled: only primitive values compare equal (the names of loaded tools are
  strings).
\<close>

fun strictEquals :: "jsv \<Rightarrow> jsv \<Rightarrow> bool" where
  "strictEquals (JArr xs) b = False"
| "strictEquals (JObj kvs) b = False"
| "strictEquals JFunction b = False"
| "strictEquals a b = (a = b)"

text \<open>
  The loop over \<open>response.tool_calls\<close>: a directive that names no tool of \<open>tools\<close> is
  passed over; a found tool is invoked, and what it returns or throws is recorded.
\<close>

fun executeToolCalls :: "collaborators \<Rightarrow> tool list \<Rightarrow> nat \<Rightarrow> tool_call list \<Rightarrow> tool_result list" where
  "executeToolCalls env tools k [] = []"
| "executeToolCalls env tools k (toolCall # rest) =
     (case find (\<lambda>t. strictEquals (t_name t) (tc_name toolCall)) tools of
        None \<Rightarrow> executeToolCalls env tools (Suc k) rest
      | Some tool \<Rightarrow>
          (case toolInvoke env k tool (tc_args toolCall) of
             Inr toolResult \<Rightarrow> ToolSuccess (tc_id toolCall) (tc_name toolCall) toolResult
           | Inl toolError \<Rightarrow>
               ToolFailure (tc_id toolCall) (tc_name toolCall) (errorMessage toolError))
          # executeToolCalls env tools (Suc k) rest)"

text \<open>
  The synthetic \<open>tool\<close> message of a result:
  \<open>tr.error ? `Error: ${tr.error}` : JSON.stringify(tr.result)\<close>. \<open>JSON.stringify\<close> is
  the parameter \<open>stringify\<close>. An empty error message is falsy, and the absent \<open>result\<close>
  is stringified then.
\<close>

fun toolMessage :: "(jsv \<Rightarrow> jsv) \<Rightarrow> tool_result \<Rightarrow> message" where
  "toolMessage stringify (ToolFailure i n e) =
     \<lparr>msg_role = ''tool'',
      msg_content = (if e \<noteq> [] then JStr (''Error: '' @ e) else stringify Undefined),
      msg_tool_calls = None, msg_tool_call_id = Some i\<rparr>"
| "toolMessage stringify (ToolSuccess i n r) =
     \<lparr>msg_role = ''tool'', msg_content = stringify r,
      msg_tool_calls = None, msg_tool_call_id = Some i\<rparr>"

definition initialMessages :: "string \<Rightarrow> string \<Rightarrow> message list" where
  "initialMessages systemMessage userMessage =
     [\<lparr>msg_role = ''system'', msg_content = JStr systemMessage,
       msg_tool_calls = None, msg_tool_call_id = None\<rparr>,
      \<lparr>msg_role = ''user'', msg_content = JStr userMessage,
       msg_tool_calls = None, msg_tool_call_id = None\<rparr>]"

definition finalMessages ::
  "(jsv \<Rightarrow> jsv) \<Rightarrow> message list \<Rightarrow> response \<Rightarrow> tool_result list \<Rightarrow> message list" where
  "finalMessages stringify messages response toolResults =
     messages
     @ [\<lparr>msg_role = ''assistant'', msg_content = resp_content response,
          msg_tool_calls = resp_tool_calls response, msg_tool_call_id = None\<rparr>]
     @ map (toolMessage stringify) toolResults"

record run_result =
  res_output :: jsv
  res_intermediateSteps :: "tool_result list"
  res_toolsUsed :: nat
  res_executionType :: string
  res_toolCalls :: "tool_call list option"
  res_error :: "string option"

text \<open>
  The body of the inner \<open>try\<close> block: bind, submit, execute the requested tools,
  resubmit. \<open>Inl\<close> is an exception that reaches the \<open>catch (agentError)\<close>.
\<close>

definition runWithTools ::
  "collaborators \<Rightarrow> (jsv \<Rightarrow> jsv) \<Rightarrow> string \<Rightarrow> string \<Rightarrow> tool list \<Rightarrow> js_error + run_result" where
  "runWithTools env stringify systemMessage userMessage tools =
     (case bindTools env tools of
        Inl e \<Rightarrow> Inl e
      | Inr modelWithTools \<Rightarrow>
          let messages = initialMessages systemMessage userMessage in
          (case modelWithTools messages of
             Inl e \<Rightarrow> Inl e
           | Inr response \<Rightarrow>
               (case resp_tool_calls response of
                  Some (toolCall # others) \<Rightarrow>
                    let toolResults = executeToolCalls env tools 0 (toolCall # others) in
                    (case modelWithTools (finalMessages stringify messages response toolResults) of
                       Inl e \<Rightarrow> Inl e
                     | Inr finalResponse \<Rightarrow>
                         Inr \<lparr>res_output = resp_content finalResponse,
                              res_intermediateSteps = toolResults,
                              res_toolsUsed = length tools,
                              res_executionType = ''sap_ai_core_with_tools'',
                              res_toolCalls = resp_tool_calls response,
                              res_error = None\<rparr>)
                | _ \<Rightarrow>
                    Inr \<lparr>res_output = resp_content response,
                         res_intermediateSteps = [],
                         res_toolsUsed = length tools,
                         res_executionType = ''sap_ai_core_direct_response'',
                         res_toolCalls = None,
                         res_error = None\<rparr>)))"

text \<open>
  The orchestration of one item, from \<open>let result\<close> to the end of the \<open>if (hasTools)\<close>
  statement; \<open>hasTools\<close> is \<open>tools.length > 0\<close>. \<open>Inl\<close> is an exception that leaves
  this part of \<open>execute\<close> (the item's outer \<open>catch\<close> deals with it).
\<close>

definition run ::
  "collaborators \<Rightarrow> (jsv \<Rightarrow> jsv) \<Rightarrow> string \<Rightarrow> string \<Rightarrow> tool list \<Rightarrow> js_error + run_result" where
  "run env stringify systemMessage userMessage tools =
     (if tools \<noteq> []
      then
        (case runWithTools env stringify systemMessage userMessage tools of
           Inr result \<Rightarrow> Inr result
         | Inl agentError \<Rightarrow>
             (case invoke env (initialMessages systemMessage userMessage) of
                Inl e \<Rightarrow> Inl e
              | Inr response \<Rightarrow>
                  Inr \<lparr>res_output = resp_content response,
                       res_intermediateSteps = [],
                       res_toolsUsed = 0,
                       res_executionType = ''direct_llm_fallback'',
                       res_toolCalls = None,
                       res_error = Some (''Tool execution failed: '' @ errorMessage agentError)\<rparr>))
      else
        (case invoke env (initialMessages systemMessage userMessage) of
           Inl e \<Rightarrow> Inl e
         | Inr response \<Rightarrow>
             Inr \<lparr>res_output = resp_content response,
                  res_intermediateSteps = [],
                  res_toolsUsed = 0,
                  res_executionType = ''sap_ai_core_direct'',
                  res_toolCalls = None,
                  res_error = None\<rparr>))"

text \<open>The tool that the lookup \<open>tools.find(t => t.name === toolCall.name)\<close> yields.\<close>

definition namedTool :: "tool list \<Rightarrow> tool_call \<Rightarrow> tool option" where
  "namedTool tools toolCall = find (\<lambda>t. strictEquals (t_name t) (tc_name toolCall)) tools"

text \<open>
  Concrete collaborators for the closed examples below: three tools, a model whose
  first response requests all three, a second tool invocation that throws, and
  endpoints that answer or fail. \<open>example_stringify\<close> agrees with \<open>JSON.stringify\<close> on
  \<open>undefined\<close>, functions, \<open>null\<close>, the empty object, the empty array and strings
  without characters to escape, the only values it is applied to below.
\<close>

definition example_tool :: "string \<Rightarrow> tool" where
  "example_tool n =
     \<lparr>t_class = DynamicToolClass, t_name = JStr n, t_description = JStr ''an example tool'',
      t_func = JFunction, t_call = JFunction, t_underscore_call = JFunction\<rparr>"

definition example_tools :: "tool list" where
  "example_tools = [example_tool ''search'', example_tool ''fetch'', example_tool ''store'']"

definition example_call :: "string \<Rightarrow> string \<Rightarrow> tool_call" where
  "example_call i n = \<lparr>tc_id = JStr i, tc_name = JStr n, tc_args = JObj []\<rparr>"

definition example_calls :: "tool_call list" where
  "example_calls =
     [example_call ''call_1'' ''search'', example_call ''call_2'' ''fetch'',
      example_call ''call_3'' ''store'']"

definition example_stringify :: "jsv \<Rightarrow> jsv" where
  "example_stringify v =
     (case v of
        Undefined \<Rightarrow> Undefined
      | JFunction \<Rightarrow> Undefined
      | JStr s \<Rightarrow> JStr ([CHR 0x22] @ s @ [CHR 0x22])
      | JObj [] \<Rightarrow> JStr ''{}''
      | JArr [] \<Rightarrow> JStr ''[]''
      | _ \<Rightarrow> JStr ''null'')"

definition example_request :: response where
  "example_request = \<lparr>resp_content = JStr [], resp_tool_calls = Some example_calls\<rparr>"

definition example_answer :: "string \<Rightarrow> response" where
  "example_answer s = \<lparr>resp_content = JStr s, resp_tool_calls = None\<rparr>"

definition answering_model :: "message list \<Rightarrow> js_error + response" where
  "answering_model messages =
     (if messages = initialMessages ''be brief'' ''what is new?'' then Inr example_request
      else Inr (example_answer ''final answer''))"

definition unanswering_model :: "message list \<Rightarrow> js_error + response" where
  "unanswering_model messages =
     (if messages = initialMessages ''be brief'' ''what is new?'' then Inr example_request
      else Inl (GenericError ''request timed out''))"

definition second_tool_throws :: "nat \<Rightarrow> tool \<Rightarrow> jsv \<Rightarrow> js_error + jsv" where
  "second_tool_throws k t args =
     (if k = 1 then Inl (GenericError ''fetch failed'') else Inr (JStr ''done''))"

definition answering_env :: collaborators where
  "answering_env =
     \<lparr>bindTools = (\<lambda>tools. Inr answering_model),
      invoke = (\<lambda>messages. Inr (example_answer ''direct answer'')),
      toolInvoke = second_tool_throws\<rparr>"

definition unanswering_env :: collaborators where
  "unanswering_env =
     \<lparr>bindTools = (\<lambda>tools. Inr unanswering_model),
      invoke = (\<lambda>messages. Inr (example_answer ''direct answer'')),
      toolInvoke = second_tool_throws\<rparr>"

definition unbindable_env :: collaborators where
  "unbindable_env =
     \<lparr>bindTools = (\<lambda>tools. Inl (GenericError ''tool schema rejected'')),
      invoke = (\<lambda>messages. Inr (example_answer ''direct answer'')),
      toolInvoke = second_tool_throws\<rparr>"

definition unreachable_env :: collaborators where
  "unreachable_env =
     \<lparr>bindTools = (\<lambda>tools. Inr (\<lambda>messages. Inl (GenericError ''connection refused''))),
      invoke = (\<lambda>messages. Inl (GenericError ''connection refused'')),
      toolInvoke = second_tool_throws\<rparr>"

section \<open>Call interception (logWrapper, callMethodAsync)\<close>

text \<open>
  The structured error of the host library, reduced to the members \<open>callMethodAsync\<close>
  reads and writes, and what a wrapped call can throw: an exception as it was raised,
  or a structured error.
\<close>

record node_error =
  ne_message :: string
  ne_description :: "string option"
  ne_functionality :: "string option"

datatype thrown = Raw js_error | Structured node_error






















































section \<open>Retry classification: proofs\<close>

lemma includes_status_truthy:
  "includes_status strToNum status \<Longrightarrow> prim_truthy status"
  by (cases status) (auto simp: includes_status_def STATUS_NO_RETRY_def split: if_splits)

lemma includes_status_iff:
  "includes_status strToNum status
     \<longleftrightarrow> to_number strToNum status \<in> Some ` {400, 401, 402, 403, 404, 405, 406, 407, 409}"
  by (auto simp: includes_status_def STATUS_NO_RETRY_def split: option.splits)

lemma default_handler_cases:
  "n8nDefaultFailedAttemptHandler strToNum error =
     (if non_retryable strToNum error then Inl error else Inr ())"
  using includes_status_truthy [of strToNum]
  by (auto simp: n8nDefaultFailedAttemptHandler_def non_retryable_def cancellation_signal_def
      http_status_def Let_def includes_status_iff)

text \<open>
  Claim C8. The default failed-attempt handler throws (marks the error as not to be
  retried) exactly for the errors that carry a cancellation or abort signal or whose
  HTTP-like status is one of 400 to 407 or 409; it throws the error it was given.
  Every other error is left retryable: the handler returns. In particular an error
  without such a signal whose status is 408, or 500 and above, is left retryable.
\<close>

theorem retry_classification:
  "(n8nDefaultFailedAttemptHandler strToNum error = Inl error \<longleftrightarrow> non_retryable strToNum error)
   \<and> (n8nDefaultFailedAttemptHandler strToNum error = Inr () \<longleftrightarrow> \<not> non_retryable strToNum error)
   \<and> (\<not> cancellation_signal error \<and> http_status strToNum error = Some n \<and> (n = 408 \<or> 500 \<le> n)
        \<longrightarrow> n8nDefaultFailedAttemptHandler strToNum error = Inr ())"
proof -
  have "\<not> non_retryable strToNum error"
    if "\<not> cancellation_signal error" "http_status strToNum error = Some n" "n = 408 \<or> 500 \<le> n"
    using that by (auto simp: non_retryable_def)
  then show ?thesis
    by (simp add: default_handler_cases)
qed

theorem retry_classification_witness:
  "n8nDefaultFailedAttemptHandler (\<lambda>s. None)
      (Some \<lparr>err_message = PStr ''Request timeout'', err_name = PStr ''Error'',
             err_code = PUndefined, err_response_status = PNum 408, err_status = PUndefined,
             err_retriesLeft = PNum 2, err_functionality = None\<rparr>) = Inr ()
   \<and> non_retryable (\<lambda>s. None)
      (Some \<lparr>err_message = PStr ''Not Found'', err_name = PStr ''Error'',
             err_code = PUndefined, err_response_status = PUndefined, err_status = PNum 404,
             err_retriesLeft = PNum 2, err_functionality = None\<rparr>)"
proof -
  let ?e408 = "Some \<lparr>err_message = PStr ''Request timeout'', err_name = PStr ''Error'',
             err_code = PUndefined, err_response_status = PNum 408, err_status = PUndefined,
             err_retriesLeft = PNum 2, err_functionality = None\<rparr>"
  let ?e404 = "Some \<lparr>err_message = PStr ''Not Found'', err_name = PStr ''Error'',
             err_code = PUndefined, err_response_status = PUndefined, err_status = PNum 404,
             err_retriesLeft = PNum 2, err_functionality = None\<rparr>"
  have quiet: "\<not> cancellation_signal ?e408"
    by (simp add: cancellation_signal_def error_member_def)
  have status: "http_status (\<lambda>s. None) ?e408 = Some 408"
    by (simp add: http_status_def error_member_def nullish_or_def)
  have thrown: "n8nDefaultFailedAttemptHandler (\<lambda>s. None) ?e404 = Inl ?e404"
    by (simp add: n8nDefaultFailedAttemptHandler_def error_member_def nullish_or_def
        includes_status_def STATUS_NO_RETRY_def)
  from retry_classification [of "\<lambda>s. None" ?e408 408] quiet status
  have "n8nDefaultFailedAttemptHandler (\<lambda>s. None) ?e408 = Inr ()"
    by blast
  moreover from retry_classification [of "\<lambda>s. None" ?e404 404] thrown
  have "non_retryable (\<lambda>s. None) ?e404"
    by blast
  ultimately show ?thesis by blast
qed

text \<open>
  Claim C10, as the code has it. The handler made by \<open>makeN8nLlmFailedAttemptHandler\<close>
  returns normally only when the default classifier leaves the error retryable and its
  \<open>retriesLeft\<close> is greater than 0 (an absent \<open>retriesLeft\<close>, or 0, is not); without a
  custom handler it returns exactly then. In every other case, and whenever the custom
  handler throws, it throws what
  \<open>new NodeApiError(node, e, { functionality: 'configuration-node' })\<close> gives, where \<open>e\<close>
  is the error that the custom handler threw or else the error of the attempt. With the
  constructor of the host library and no custom handler: for an error object that is
  not a \<open>NodeApiError\<close>, a new \<open>NodeApiError\<close> around it tagged \<open>configuration-node\<close> is
  thrown; an error that is a \<open>NodeApiError\<close> already is thrown as it is, with the
  functionality it has; for \<open>null\<close> or \<open>undefined\<close> the constructor's \<open>TypeError\<close> is
  thrown.
\<close>

theorem llm_failed_attempt_handler:
  "(makeN8nLlmFailedAttemptHandler strToNum newApiError handler error = Inr ()
      \<longrightarrow> n8nDefaultFailedAttemptHandler strToNum error = Inr ()
          \<and> greater_than_zero strToNum (error_member err_retriesLeft error))
   \<and> (\<not> (n8nDefaultFailedAttemptHandler strToNum error = Inr ()
           \<and> greater_than_zero strToNum (error_member err_retriesLeft error))
      \<longrightarrow> (\<exists>e. makeN8nLlmFailedAttemptHandler strToNum newApiError handler error
                 = Inl (newApiError e ''configuration-node'')
               \<and> (e = error \<or> (\<exists>h. handler = Some h \<and> h error = Inl e))))
   \<and> (error_member err_retriesLeft error = PUndefined \<or> error_member err_retriesLeft error = PNum 0
      \<longrightarrow> \<not> greater_than_zero strToNum (error_member err_retriesLeft error))
   \<and> (handler = None \<and> n8nDefaultFailedAttemptHandler strToNum error = Inr ()
        \<and> greater_than_zero strToNum (error_member err_retriesLeft error)
      \<longrightarrow> makeN8nLlmFailedAttemptHandler strToNum newApiError handler error = Inr ())
   \<and> (\<forall>h e. handler = Some h \<and> h error = Inl e
      \<longrightarrow> makeN8nLlmFailedAttemptHandler strToNum newApiError handler error
            = Inl (newApiError e ''configuration-node''))
   \<and> (\<forall>errorObject.
        \<not> (n8nDefaultFailedAttemptHandler strToNum error = Inr ()
           \<and> greater_than_zero strToNum (error_member err_retriesLeft error))
        \<and> error = Some errorObject
      \<longrightarrow> makeN8nLlmFailedAttemptHandler strToNum newNodeApiError None error
            = Inl (if err_functionality errorObject = None
                   then NodeApiError errorObject ''configuration-node''
                   else GivenError errorObject))
   \<and> (error = None
      \<longrightarrow> makeN8nLlmFailedAttemptHandler strToNum newNodeApiError None error
            = Inl ConstructorTypeError)"
proof -
  have default_result:
    "n8nDefaultFailedAttemptHandler strToNum error = Inl error
     \<or> n8nDefaultFailedAttemptHandler strToNum error = Inr ()"
    by (simp add: default_handler_cases)
  have absent: "\<not> greater_than_zero strToNum PUndefined" "\<not> greater_than_zero strToNum (PNum 0)"
    by (simp_all add: greater_than_zero_def)
  have returned: "n8nDefaultFailedAttemptHandler strToNum error = Inr ()
      \<and> greater_than_zero strToNum (error_member err_retriesLeft error)"
    if "makeN8nLlmFailedAttemptHandler strToNum newApiError handler error = Inr ()"
    using that
    by (auto simp: makeN8nLlmFailedAttemptHandler_def split: option.splits sum.splits if_splits)
  have thrown: "\<exists>e. makeN8nLlmFailedAttemptHandler strToNum newApiError handler error
                 = Inl (newApiError e ''configuration-node'')
               \<and> (e = error \<or> (\<exists>h. handler = Some h \<and> h error = Inl e))"
    if "\<not> (n8nDefaultFailedAttemptHandler strToNum error = Inr ()
           \<and> greater_than_zero strToNum (error_member err_retriesLeft error))"
    using that default_result
    by (auto simp: makeN8nLlmFailedAttemptHandler_def split: option.splits sum.splits)
  have plain: "makeN8nLlmFailedAttemptHandler strToNum c None error = Inl (c error ''configuration-node'')"
    if "\<not> (n8nDefaultFailedAttemptHandler strToNum error = Inr ()
           \<and> greater_than_zero strToNum (error_member err_retriesLeft error))" for c :: "attempt_error option \<Rightarrow> string \<Rightarrow> handler_thrown"
    using that default_result
    by (auto simp: makeN8nLlmFailedAttemptHandler_def split: sum.splits)
  have object: "makeN8nLlmFailedAttemptHandler strToNum newNodeApiError None error
            = Inl (if err_functionality errorObject = None
                   then NodeApiError errorObject ''configuration-node''
                   else GivenError errorObject)"
    if "\<not> (n8nDefaultFailedAttemptHandler strToNum error = Inr ()
           \<and> greater_than_zero strToNum (error_member err_retriesLeft error))"
      and "error = Some errorObject" for errorObject
    using plain [OF that(1), of newNodeApiError] that(2)
    by (auto simp: newNodeApiError_def split: option.splits)
  have nullish: "makeN8nLlmFailedAttemptHandler strToNum newNodeApiError None error
            = Inl ConstructorTypeError" if "error = None"
  proof -
    have "\<not> greater_than_zero strToNum (error_member err_retriesLeft error)"
      using that absent by (simp add: error_member_def)
    from plain [of newNodeApiError] this show ?thesis
      using that by (simp add: newNodeApiError_def)
  qed
  have kept: "makeN8nLlmFailedAttemptHandler strToNum newApiError handler error = Inr ()"
    if "handler = None" "n8nDefaultFailedAttemptHandler strToNum error = Inr ()"
      "greater_than_zero strToNum (error_member err_retriesLeft error)"
    using that by (simp add: makeN8nLlmFailedAttemptHandler_def)
  have custom: "makeN8nLlmFailedAttemptHandler strToNum newApiError handler error
            = Inl (newApiError e ''configuration-node'')"
    if "handler = Some h" "h error = Inl e" for h e
    using that by (simp add: makeN8nLlmFailedAttemptHandler_def)
  show ?thesis
    using returned thrown absent kept custom object nullish by (intro conjI impI allI) auto
qed

text \<open>
  The claim as stated fails. An attempt that failed with a \<open>NodeApiError\<close> of the default
  functionality \<open>regular\<close> and has no retries left makes the handler throw that very error,
  still tagged \<open>regular\<close>; and for the error value \<open>undefined\<close> the handler throws a
  \<open>TypeError\<close>, not a \<open>NodeApiError\<close>.
\<close>

theorem llm_failed_attempt_handler_counterexample:
  "makeN8nLlmFailedAttemptHandler unparsed newNodeApiError None (Some rejected_request)
     = Inl (GivenError rejected_request)
   \<and> thrown_functionality (GivenError rejected_request) = Some ''regular''
   \<and> makeN8nLlmFailedAttemptHandler unparsed newNodeApiError None None = Inl ConstructorTypeError"
  by (simp add: makeN8nLlmFailedAttemptHandler_def n8nDefaultFailedAttemptHandler_def
      newNodeApiError_def rejected_request_def error_member_def nullish_or_def
      greater_than_zero_def)

theorem llm_failed_attempt_handler_witness:
  "makeN8nLlmFailedAttemptHandler unparsed newNodeApiError None (Some (service_unavailable 0))
     = Inl (NodeApiError (service_unavailable 0) ''configuration-node'')
   \<and> makeN8nLlmFailedAttemptHandler unparsed newNodeApiError None (Some (service_unavailable 3))
     = Inr ()"
proof -
  have retryable: "n8nDefaultFailedAttemptHandler unparsed (Some (service_unavailable n)) = Inr ()"
    for n
    by (simp add: n8nDefaultFailedAttemptHandler_def error_member_def nullish_or_def
        includes_status_def STATUS_NO_RETRY_def service_unavailable_def)
  have left0: "\<not> greater_than_zero unparsed (error_member err_retriesLeft (Some (service_unavailable 0)))"
    and left3: "greater_than_zero unparsed (error_member err_retriesLeft (Some (service_unavailable 3)))"
    by (simp_all add: greater_than_zero_def error_member_def service_unavailable_def)
  have plain: "err_functionality (service_unavailable 0) = None"
    by (simp add: service_unavailable_def)
  from llm_failed_attempt_handler [of unparsed newNodeApiError None "Some (service_unavailable 0)"]
    left0 plain
  have "makeN8nLlmFailedAttemptHandler unparsed newNodeApiError None (Some (service_unavailable 0))
     = Inl (NodeApiError (service_unavailable 0) ''configuration-node'')"
    by (simp add: newNodeApiError_def)
  moreover
  from llm_failed_attempt_handler [of unparsed newNodeApiError None "Some (service_unavailable 3)"]
    retryable [of 3] left3
  have "makeN8nLlmFailedAttemptHandler unparsed newNodeApiError None (Some (service_unavailable 3))
     = Inr ()"
    by simp
  ultimately show ?thesis by simp
qed
section \<open>Curly-bracket escaping: proofs\<close>

lemma reduced_runs: "reduced (runs s)"
proof (induction s)
  case Nil
  then show ?case by simp
next
  case (Cons x s)
  then show ?case
    by (cases "runs s" rule: reduced.cases) (auto split: if_splits)
qed

lemma unruns_simps [simp]:
  "unruns [] = []"
  "unruns ((c, n) # rs) = replicate n c @ unruns rs"
  by (simp_all add: unruns_def)

lemma unruns_runs: "unruns (runs s) = s"
  by (induction s) (auto split: list.splits)

lemma not_starting_unruns:
  "reduced ((c, n) # rs) \<Longrightarrow> not_starting c (unruns rs)"
  by (cases rs rule: reduced.cases) (auto simp: not_starting_def gr0_conv_Suc split: list.splits)

lemma reduced_tail: "reduced (r # rs) \<Longrightarrow> reduced rs"
  by (cases "r # rs" rule: reduced.cases) auto

lemma reduced_pos: "reduced ((c, n) # rs) \<Longrightarrow> 0 < n"
  by (cases "(c, n) # rs" rule: reduced.cases) auto

lemma runs_replicate_append:
  "0 < n \<Longrightarrow> not_starting c xs \<Longrightarrow> runs (replicate n c @ xs) = (c, n) # runs xs"
proof (induction n)
  case 0
  then show ?case by simp
next
  case (Suc n)
  show ?case
  proof (cases n)
    case 0
    with Suc.prems show ?thesis
      by (cases xs) (auto simp: not_starting_def split: list.splits)
  next
    case (Suc m)
    with Suc.IH Suc.prems show ?thesis by simp
  qed
qed

lemma runs_unruns: "reduced rs \<Longrightarrow> runs (unruns rs) = rs"
proof (induction rs)
  case Nil
  then show ?case by simp
next
  case (Cons r rs)
  obtain c n where r: "r = (c, n)" by (cases r)
  from Cons.prems r have "0 < n" "not_starting c (unruns rs)" "reduced rs"
    by (auto intro: reduced_pos not_starting_unruns reduced_tail)
  with Cons.IH r show ?case
    by (simp add: runs_replicate_append)
qed


lemma replaceTriple_other_run:
  "c \<noteq> b \<Longrightarrow> 0 < n \<Longrightarrow>
   replaceTriple b prev (replicate n c @ rest) = replicate n c @ replaceTriple b (Some c) rest"
proof (induction n arbitrary: prev)
  case 0
  then show ?case by simp
next
  case (Suc n)
  then show ?case by (cases n) auto
qed

lemma replaceTriple_inside_run:
  "replaceTriple b (Some b) (replicate n b @ rest) = replicate n b @ replaceTriple b (Some b) rest"
  by (induction n) auto

lemma replaceTriple_brace_run:
  assumes "prev \<noteq> Some b" and "0 < n" and "not_starting b rest"
  shows "replaceTriple b prev (replicate n b @ rest)
           = replicate (if n = 3 then 4 else n) b @ replaceTriple b (Some b) rest"
proof -
  consider "n = 1" | "n = 2" | "n = 3" | m where "n = Suc (Suc (Suc (Suc m)))"
    using assms(2) by (metis Suc_pred numeral_2_eq_2 numeral_3_eq_3 One_nat_def gr0_conv_Suc not0_implies_Suc)
  then show ?thesis
  proof cases
    case 1
    with assms show ?thesis
      by (cases rest) (auto simp: not_starting_def)
  next
    case 2
    with assms show ?thesis
      by (cases rest) (auto simp: not_starting_def numeral_2_eq_2)
  next
    case 3
    with assms show ?thesis
      by (cases rest) (auto simp: not_starting_def eval_nat_numeral)
  next
    case 4
    have "replaceTriple b prev (replicate n b @ rest)
            = b # replaceTriple b (Some b) (replicate (Suc (Suc (Suc m))) b @ rest)"
      using assms(1) by (simp add: 4)
    also have "\<dots> = b # replicate (Suc (Suc (Suc m))) b @ replaceTriple b (Some b) rest"
      by (simp only: replaceTriple_inside_run)
    finally show ?thesis by (simp add: 4)
  qed
qed

lemma replaceTriple_runs:
  "reduced rs \<Longrightarrow> (case rs of [] \<Rightarrow> True | (c, _) # _ \<Rightarrow> prev \<noteq> Some c) \<Longrightarrow>
   replaceTriple b prev (unruns rs) = unruns (map (triple_run b) rs)"
proof (induction rs arbitrary: prev)
  case Nil
  then show ?case by simp
next
  case (Cons r rs)
  obtain c n where r: "r = (c, n)" by (cases r)
  from Cons.prems r have n: "0 < n" and ns: "not_starting c (unruns rs)" and red: "reduced rs"
    and prev: "prev \<noteq> Some c"
    by (auto intro: reduced_pos not_starting_unruns reduced_tail)
  have next_ok: "(case rs of [] \<Rightarrow> True | (d, _) # _ \<Rightarrow> Some c \<noteq> Some d)"
    using Cons.prems(1) r by (cases rs rule: reduced.cases) auto
  have IH: "replaceTriple b (Some c) (unruns rs) = unruns (map (triple_run b) rs)"
    by (rule Cons.IH [OF red next_ok])
  show ?case
  proof (cases "c = b")
    case True
    with r n ns prev IH show ?thesis
      by (simp add: replaceTriple_brace_run)
  next
    case False
    with r n IH show ?thesis
      by (simp add: replaceTriple_other_run)
  qed
qed


lemma replaceSingle_other_run:
  "c \<noteq> b \<Longrightarrow> 0 < n \<Longrightarrow>
   replaceSingle b prev (replicate n c @ rest) = replicate n c @ replaceSingle b (Some c) rest"
proof (induction n arbitrary: prev)
  case 0
  then show ?case by simp
next
  case (Suc n)
  then show ?case by (cases n) auto
qed

lemma replaceSingle_inside_run:
  "replaceSingle b (Some b) (replicate n b @ rest) = replicate n b @ replaceSingle b (Some b) rest"
  by (induction n) auto

lemma replaceSingle_brace_run:
  assumes "prev \<noteq> Some b" and "0 < n" and "not_starting b rest"
  shows "replaceSingle b prev (replicate n b @ rest)
           = replicate (if n = 1 then 2 else n) b @ replaceSingle b (Some b) rest"
proof (cases n)
  case 0
  with assms show ?thesis by simp
next
  case (Suc m)
  show ?thesis
  proof (cases m)
    case 0
    with Suc assms show ?thesis
      by (cases rest) (auto simp: not_starting_def eval_nat_numeral)
  next
    case (Suc k)
    have "replaceSingle b prev (replicate n b @ rest)
            = b # replaceSingle b (Some b) (replicate m b @ rest)"
      using assms(1) by (simp add: \<open>n = Suc m\<close> Suc)
    also have "\<dots> = b # replicate m b @ replaceSingle b (Some b) rest"
      by (simp only: replaceSingle_inside_run)
    finally show ?thesis by (simp add: \<open>n = Suc m\<close> Suc)
  qed
qed

lemma replaceSingle_runs:
  "reduced rs \<Longrightarrow> (case rs of [] \<Rightarrow> True | (c, _) # _ \<Rightarrow> prev \<noteq> Some c) \<Longrightarrow>
   replaceSingle b prev (unruns rs) = unruns (map (single_run b) rs)"
proof (induction rs arbitrary: prev)
  case Nil
  then show ?case by simp
next
  case (Cons r rs)
  obtain c n where r: "r = (c, n)" by (cases r)
  from Cons.prems r have n: "0 < n" and ns: "not_starting c (unruns rs)" and red: "reduced rs"
    and prev: "prev \<noteq> Some c"
    by (auto intro: reduced_pos not_starting_unruns reduced_tail)
  have next_ok: "(case rs of [] \<Rightarrow> True | (d, _) # _ \<Rightarrow> Some c \<noteq> Some d)"
    using Cons.prems(1) r by (cases rs rule: reduced.cases) auto
  have IH: "replaceSingle b (Some c) (unruns rs) = unruns (map (single_run b) rs)"
    by (rule Cons.IH [OF red next_ok])
  show ?case
  proof (cases "c = b")
    case True
    with r n ns prev IH show ?thesis
      by (simp add: replaceSingle_brace_run)
  next
    case False
    with r n IH show ?thesis
      by (simp add: replaceSingle_other_run)
  qed
qed

lemma reduced_map:
  assumes "\<And>c n. 0 < n \<Longrightarrow> fst (f (c, n)) = c \<and> 0 < snd (f (c, n))"
  shows "reduced rs \<Longrightarrow> reduced (map f rs)"
proof (induction rs rule: reduced.induct)
  case 1
  then show ?case by simp
next
  case (2 c n)
  with assms [of n c] show ?case
    by (cases "f (c, n)") auto
next
  case (3 c n d m rs)
  from "3.prems" have "0 < m"
    by (auto dest: reduced_tail reduced_pos)
  with 3 assms [of n c] assms [of m d] show ?case
    by (cases "f (c, n)"; cases "f (d, m)") auto
qed

lemma reduced_triple: "reduced rs \<Longrightarrow> reduced (map (triple_run b) rs)"
  by (rule reduced_map) auto

lemma reduced_single: "reduced rs \<Longrightarrow> reduced (map (single_run b) rs)"
  by (rule reduced_map) auto

lemma top_prev: "(case rs of [] \<Rightarrow> True | (c, _) # _ \<Rightarrow> None \<noteq> Some c)"
  by (auto split: list.splits)

lemma escaped_run_comp:
  "single_run (CHR ''}'') (single_run (CHR ''{'') (triple_run (CHR ''}'') (triple_run (CHR ''{'') r)))
     = escaped_run r"
  by (cases r) auto

lemma escape_runs:
  "escapeSingleCurlyBrackets (Some s) = Some (unruns (map escaped_run (runs s)))"
proof -
  let ?r0 = "runs s"
  let ?r1 = "map (triple_run (CHR ''{'')) ?r0"
  let ?r2 = "map (triple_run (CHR ''}'')) ?r1"
  let ?r3 = "map (single_run (CHR ''{'')) ?r2"
  let ?r4 = "map (single_run (CHR ''}'')) ?r3"
  have red0: "reduced ?r0" by (rule reduced_runs)
  have red1: "reduced ?r1" by (rule reduced_triple [OF red0])
  have red2: "reduced ?r2" by (rule reduced_triple [OF red1])
  have red3: "reduced ?r3" by (rule reduced_single [OF red2])
  have s1: "replaceTriple (CHR ''{'') None s = unruns ?r1"
    using replaceTriple_runs [OF red0 top_prev] by (simp add: unruns_runs)
  have s2: "replaceTriple (CHR ''}'') None (unruns ?r1) = unruns ?r2"
    by (rule replaceTriple_runs [OF red1 top_prev])
  have s3: "replaceSingle (CHR ''{'') None (unruns ?r2) = unruns ?r3"
    by (rule replaceSingle_runs [OF red2 top_prev])
  have s4: "replaceSingle (CHR ''}'') None (unruns ?r3) = unruns ?r4"
    by (rule replaceSingle_runs [OF red3 top_prev])
  have r4: "?r4 = map escaped_run ?r0"
    by (simp add: escaped_run_comp del: triple_run.simps single_run.simps escaped_run.simps)
  have "escapeSingleCurlyBrackets (Some s) = Some (unruns ?r4)"
    by (simp only: escapeSingleCurlyBrackets_def option.case s1 s2 s3 s4)
  then show ?thesis
    by (simp only: r4)
qed

lemma escaped_run_idem: "escaped_run \<circ> escaped_run = escaped_run"
  by (rule ext) auto

lemma escape_twice:
  "escapeSingleCurlyBrackets (Some (unruns (map escaped_run (runs s))))
     = Some (unruns (map escaped_run (runs s)))"
proof -
  have "reduced (map escaped_run (runs s))"
    by (rule reduced_map) (auto simp: reduced_runs)
  then have "runs (unruns (map escaped_run (runs s))) = map escaped_run (runs s)"
    by (rule runs_unruns)
  then show ?thesis
    by (simp add: escape_runs escaped_run_idem del: escaped_run.simps)
qed

text \<open>
  Claim C7. For every input string, \<open>escapeSingleCurlyBrackets\<close> returns a string
  whose maximal runs of equal characters are those of the input, in the same order,
  where a run of exactly one opening or closing curly bracket (a single, unpaired
  bracket) has become a run of two, a run of exactly two (an already doubled pair) is
  kept as it is, a run of three has become four (the pair kept, the single bracket
  doubled), and every other run, of brackets or of other characters, is unchanged.
  Applied to its own result, the function changes nothing: nothing is doubled a second
  time.
\<close>

theorem escape_policy:
  "\<exists>t. escapeSingleCurlyBrackets (Some s) = Some t
       \<and> runs t = map escaped_run (runs s)
       \<and> escapeSingleCurlyBrackets (Some t) = Some t"
proof -
  have "reduced (map escaped_run (runs s))"
    by (rule reduced_map) (auto simp: reduced_runs)
  then have "runs (unruns (map escaped_run (runs s))) = map escaped_run (runs s)"
    by (rule runs_unruns)
  then show ?thesis
    using escape_twice [of s] by (simp add: escape_runs)
qed

theorem escape_policy_witness:
  "escapeSingleCurlyBrackets (Some ''{a} {{b}}'') = Some ''{{a}} {{b}}''
   \<and> runs ''{{a}} {{b}}'' = map escaped_run (runs ''{a} {{b}}'')
   \<and> escapeSingleCurlyBrackets (Some ''{{a}} {{b}}'') = Some ''{{a}} {{b}}''"
proof -
  from escape_policy [of "''{a} {{b}}''"]
  obtain t where t: "escapeSingleCurlyBrackets (Some ''{a} {{b}}'') = Some t"
    and r: "runs t = map escaped_run (runs ''{a} {{b}}'')"
    and i: "escapeSingleCurlyBrackets (Some t) = Some t"
    by blast
  have "escapeSingleCurlyBrackets (Some ''{a} {{b}}'') = Some ''{{a}} {{b}}''"
    by (simp add: escapeSingleCurlyBrackets_def)
  with t r i show ?thesis by simp
qed

section \<open>Tool discovery: proofs\<close>

lemma tryTool_invalid:
  "valid_name c = None \<Longrightarrow> tryTool conv esc seen c = (seen, Inr None)"
proof (cases c)
  case (PrimitiveValue p)
  then show ?thesis by (cases p) (simp_all add: tryTool_def)
next
  case FunctionValue
  then show ?thesis by (simp add: tryTool_def)
next
  case (ObjectValue t)
  assume "valid_name c = None"
  with ObjectValue show ?thesis
    by (cases "t_name t") (auto simp: tryTool_def split: if_splits)
qed

lemma tryTool_seen:
  "valid_name c = Some n \<Longrightarrow> n \<in> seen \<Longrightarrow>
   tryTool conv esc seen c = (seen, Inl (NodeOperationError (duplicateMessage n)))"
  by (cases c; cases "t_name (case c of ObjectValue t \<Rightarrow> t)")
     (auto simp: tryTool_def split: if_splits jsv.splits)

lemma tryTool_new:
  assumes "valid_name c = Some n" and "n \<notin> seen"
  shows "tryTool conv esc seen c
           = (insert n seen,
              case snd (tryTool conv esc {} c) of
                Inl e \<Rightarrow> Inl e | Inr r \<Rightarrow> Inr r)"
    and "\<And>e. snd (tryTool conv esc {} c) = Inl e \<Longrightarrow> \<not> isNodeOperationError e"
proof -
  from assms obtain t where c: "c = ObjectValue t" and n: "t_name t = JStr n" "n \<noteq> []"
    by (cases c; cases "t_name (case c of ObjectValue t \<Rightarrow> t)") (auto split: if_splits)
  show "tryTool conv esc seen c
           = (insert n seen,
              case snd (tryTool conv esc {} c) of
                Inl e \<Rightarrow> Inl e | Inr r \<Rightarrow> Inr r)"
    using c n assms(2) by (simp add: tryTool_def split: sum.splits)
  show "\<not> isNodeOperationError e" if "snd (tryTool conv esc {} c) = Inl e" for e
    using that c n
    by (auto simp: tryTool_def escapeDescription_def asDynamicTool_def
        split: sum.splits if_splits jsv.splits option.splits)
qed


lemma duplicateMessage_blocking:
  "sublist ''multiple tools with the same name'' (duplicateMessage n)"
proof -
  have "duplicateMessage n = ''You have '' @ ''multiple tools with the same name''
          @ ('': '' @ [CHR 0x27] @ n @ [CHR 0x27] @ '', please rename them to avoid conflicts'')"
    by (simp add: duplicateMessage_def)
  then show ?thesis
    by (simp only: sublist_appendI)
qed

lemma duplicateMessage_names: "sublist n (duplicateMessage n)"
proof -
  have "duplicateMessage n = (''You have multiple tools with the same name: '' @ [CHR 0x27])
          @ n @ ([CHR 0x27] @ '', please rename them to avoid conflicts'')"
    by (simp add: duplicateMessage_def)
  then show ?thesis
    by (simp only: sublist_appendI)
qed

lemma valid_names_Cons:
  "valid_names (c # cs) = (case valid_name c of None \<Rightarrow> valid_names cs | Some n \<Rightarrow> n # valid_names cs)"
  by (simp add: valid_names_def List.map_filter_simps split: option.splits)

lemma pushedTool_invalid: "valid_name c = None \<Longrightarrow> pushedTool conv esc c = None"
  by (simp add: pushedTool_def tryTool_invalid)

lemma processTools_result:
  "processTools conv esc seen final cs =
     (case first_duplicate seen (valid_names cs) of
        Some n \<Rightarrow> Inl (NodeOperationError (duplicateMessage n))
      | None \<Rightarrow> Inr (final @ List.map_filter (pushedTool conv esc) cs))"
proof (induction cs arbitrary: seen final)
  case Nil
  then show ?case by (simp add: valid_names_def List.map_filter_simps)
next
  case (Cons c cs)
  show ?case
  proof (cases "valid_name c")
    case None
    then show ?thesis
      by (simp add: tryTool_invalid valid_names_Cons pushedTool_invalid Cons.IH
          List.map_filter_simps split: option.splits)
  next
    case (Some n)
    show ?thesis
    proof (cases "n \<in> seen")
      case True
      with Some show ?thesis
        by (simp add: tryTool_seen valid_names_Cons duplicateMessage_blocking)
    next
      case False
      note new = tryTool_new [OF Some False, of conv esc]
      show ?thesis
      proof (cases "snd (tryTool conv esc {} c)")
        case (Inl e)
        with new(2) have "\<not> isNodeOperationError e" by simp
        moreover from Inl have "pushedTool conv esc c = None"
          by (simp add: pushedTool_def)
        ultimately show ?thesis
          using Some False Inl new(1)
          by (simp add: valid_names_Cons Cons.IH List.map_filter_simps split: option.splits)
      next
        case (Inr r)
        then have "pushedTool conv esc c = r"
          by (simp add: pushedTool_def)
        then show ?thesis
          using Some False Inr new(1)
          by (cases r)
            (simp_all add: valid_names_Cons Cons.IH List.map_filter_simps split: option.splits)
      qed
    qed
  qed
qed

lemma first_duplicate_None:
  "first_duplicate seen ns = None \<longleftrightarrow> distinct ns \<and> set ns \<inter> seen = {}"
  by (induction ns arbitrary: seen) auto

lemma first_duplicate_Some:
  "first_duplicate seen ns = Some n \<Longrightarrow> n \<in> set ns \<and> (n \<in> seen \<or> 2 \<le> count_list ns n)"
proof (induction ns arbitrary: seen)
  case Nil
  then show ?case by simp
next
  case (Cons m ns)
  show ?case
  proof (cases "m \<in> seen")
    case True
    with Cons.prems show ?thesis by simp
  next
    case False
    with Cons.prems have "first_duplicate (insert m seen) ns = Some n" by simp
    from Cons.IH [OF this] have n: "n \<in> set ns" and "n = m \<or> n \<in> seen \<or> 2 \<le> count_list ns n"
      by auto
    moreover have "count_list ns n \<noteq> 0" using n by (simp add: count_list_0_iff)
    ultimately show ?thesis by auto
  qed
qed


lemma getConnectedTools_enforced:
  "getConnectedTools (Inr raw) True conv esc =
     (if \<not> raw_truthy raw then Inr []
      else case first_duplicate {} (valid_names (connectedTools raw)) of
             Some n \<Rightarrow> Inl (NodeOperationError (duplicateMessage n))
           | None \<Rightarrow> Inr (map ObjectValue
                           (List.map_filter (pushedTool conv esc) (connectedTools raw))))"
  by (simp add: getConnectedTools_def processTools_result split: option.splits)

lemma valid_names_append: "valid_names (xs @ ys) = valid_names xs @ valid_names ys"
  by (simp add: valid_names_def List.map_filter_def)

lemma two_valid_not_distinct:
  assumes "i < j" and "j < length cs"
    and "valid_name (cs ! i) = Some n" and "valid_name (cs ! j) = Some n"
  shows "\<not> distinct (valid_names cs)"
proof -
  from assms(1,2) have i: "i < length cs" by simp
  have cs: "cs = take i cs @ cs ! i # drop (Suc i) cs"
    using i by (rule id_take_nth_drop)
  have "j - Suc i < length (drop (Suc i) cs)"
    using assms(1,2) by simp
  moreover have "drop (Suc i) cs ! (j - Suc i) = cs ! j"
    using assms(1,2) by simp
  ultimately have "cs ! j \<in> set (drop (Suc i) cs)"
    by (metis nth_mem)
  then have "n \<in> set (valid_names (drop (Suc i) cs))"
    using assms(4) by (force simp: valid_names_def List.map_filter_def)
  moreover have "valid_names cs
      = valid_names (take i cs) @ n # valid_names (drop (Suc i) cs)"
    by (subst cs) (simp add: valid_names_append valid_names_Cons assms(3))
  ultimately show ?thesis by simp
qed

lemma valid_name_object:
  "t_name t = JStr n \<Longrightarrow> n \<noteq> [] \<Longrightarrow> valid_name (ObjectValue t) = Some n"
  by simp

text \<open>
  Claim C4. Whenever the flattened sequence of connected tools holds two entries (at
  positions \<open>i < j\<close>) that are objects with the same non-empty string name,
  \<open>getConnectedTools\<close> with \<open>enforceUniqueNames = true\<close> throws the
  \<open>NodeOperationError\<close> about multiple tools with the same name; the message names the
  tool name \<open>m\<close> that the loop meets a second time first, a name that at least two
  valid candidates carry. No tool list is returned, whatever the other entries are
  and whatever the two other flags are.
\<close>

theorem duplicate_names_fail_discovery:
  assumes "i < j" and "j < length (connectedTools raw)"
    and "connectedTools raw ! i = ObjectValue t1" and "t_name t1 = JStr n"
    and "connectedTools raw ! j = ObjectValue t2" and "t_name t2 = JStr n"
    and "n \<noteq> []"
  shows "\<exists>m. getConnectedTools (Inr raw) True convertStructuredTool escapeCurlyBrackets
               = Inl (NodeOperationError (duplicateMessage m))
             \<and> sublist m (duplicateMessage m)
             \<and> first_duplicate {} (valid_names (connectedTools raw)) = Some m
             \<and> 2 \<le> count_list (valid_names (connectedTools raw)) m"
proof -
  have truthy: "raw_truthy raw"
    using assms(1,2) by (cases raw) auto
  have "\<not> distinct (valid_names (connectedTools raw))"
    using assms by (intro two_valid_not_distinct [of i j _ n]) (simp_all add: valid_name_object)
  then obtain m where m: "first_duplicate {} (valid_names (connectedTools raw)) = Some m"
    using first_duplicate_None [of "{}" "valid_names (connectedTools raw)"] by auto
  from first_duplicate_Some [OF m]
  have "2 \<le> count_list (valid_names (connectedTools raw)) m" by simp
  with truthy m show ?thesis
    by (auto simp: getConnectedTools_enforced duplicateMessage_names)
qed

theorem duplicate_names_fail_discovery_witness:
  "getConnectedTools
     (Inr (RawArray
       [ItemEntry (ObjectValue \<lparr>t_class = PlainObject, t_name = JStr ''search'',
           t_description = JStr ''first'', t_func = JFunction, t_call = Undefined,
           t_underscore_call = Undefined\<rparr>),
        ToolkitEntry [ObjectValue \<lparr>t_class = PlainObject, t_name = JStr ''search'',
           t_description = JStr ''second'', t_func = JFunction, t_call = Undefined,
           t_underscore_call = Undefined\<rparr>],
        ItemEntry (ObjectValue \<lparr>t_class = PlainObject, t_name = JStr ''fetch'',
           t_description = JStr ''third'', t_func = JFunction, t_call = Undefined,
           t_underscore_call = Undefined\<rparr>)]))
     True True False
   = Inl (NodeOperationError (duplicateMessage ''search''))"
proof -
  let ?t1 = "\<lparr>t_class = PlainObject, t_name = JStr ''search'',
           t_description = JStr ''first'', t_func = JFunction, t_call = Undefined,
           t_underscore_call = Undefined\<rparr>"
  let ?t2 = "\<lparr>t_class = PlainObject, t_name = JStr ''search'',
           t_description = JStr ''second'', t_func = JFunction, t_call = Undefined,
           t_underscore_call = Undefined\<rparr>"
  let ?t3 = "\<lparr>t_class = PlainObject, t_name = JStr ''fetch'',
           t_description = JStr ''third'', t_func = JFunction, t_call = Undefined,
           t_underscore_call = Undefined\<rparr>"
  let ?raw = "RawArray [ItemEntry (ObjectValue ?t1), ToolkitEntry [ObjectValue ?t2],
                        ItemEntry (ObjectValue ?t3)]"
  have names: "valid_names (connectedTools ?raw) = [''search'', ''search'', ''fetch'']"
    by (simp add: valid_names_def List.map_filter_simps)
  from duplicate_names_fail_discovery [of 0 1 ?raw ?t1 "''search''" ?t2 True False]
  obtain m where thrown: "getConnectedTools (Inr ?raw) True True False
        = Inl (NodeOperationError (duplicateMessage m))"
    and twice: "2 \<le> count_list (valid_names (connectedTools ?raw)) m"
    by auto
  from twice have "m = ''search''"
    unfolding names by (auto split: if_splits)
  with thrown show ?thesis by simp
qed

text \<open>
  Claim C9. With \<open>enforceUniqueNames = false\<close>, \<open>getConnectedTools\<close> returns the
  connected tools, toolkits expanded, exactly as they were delivered: no candidate is
  validated, compared with another, escaped or converted, whatever the values of
  \<open>convertStructuredTool\<close> and \<open>escapeCurlyBrackets\<close>. (When no connection data was
  delivered, the list is empty.)
\<close>

theorem unenforced_discovery_returns_flattened_list:
  "getConnectedTools (Inr raw) False convertStructuredTool escapeCurlyBrackets
     = Inr (if raw_truthy raw then connectedTools raw else [])"
  by (simp add: getConnectedTools_def)

theorem unenforced_discovery_returns_flattened_list_witness:
  "getConnectedTools
     (Inr (RawArray
       [ItemEntry (PrimitiveValue (PNum 7)),
        ToolkitEntry
          [ObjectValue \<lparr>t_class = N8nToolClass, t_name = JStr ''a'', t_description = JStr ''{x}'',
             t_func = JFunction, t_call = Undefined, t_underscore_call = Undefined\<rparr>,
           ObjectValue \<lparr>t_class = N8nToolClass, t_name = JStr ''a'', t_description = JStr ''{x}'',
             t_func = JFunction, t_call = Undefined, t_underscore_call = Undefined\<rparr>]]))
     False True True
   = Inr [PrimitiveValue (PNum 7),
          ObjectValue \<lparr>t_class = N8nToolClass, t_name = JStr ''a'', t_description = JStr ''{x}'',
             t_func = JFunction, t_call = Undefined, t_underscore_call = Undefined\<rparr>,
          ObjectValue \<lparr>t_class = N8nToolClass, t_name = JStr ''a'', t_description = JStr ''{x}'',
             t_func = JFunction, t_call = Undefined, t_underscore_call = Undefined\<rparr>]"
  using unenforced_discovery_returns_flattened_list
    [of "RawArray
       [ItemEntry (PrimitiveValue (PNum 7)),
        ToolkitEntry
          [ObjectValue \<lparr>t_class = N8nToolClass, t_name = JStr ''a'', t_description = JStr ''{x}'',
             t_func = JFunction, t_call = Undefined, t_underscore_call = Undefined\<rparr>,
           ObjectValue \<lparr>t_class = N8nToolClass, t_name = JStr ''a'', t_description = JStr ''{x}'',
             t_func = JFunction, t_call = Undefined, t_underscore_call = Undefined\<rparr>]]" True True]
  by simp










section \<open>Schema simplification: proofs\<close>














section \<open>Tool-calling orchestration: proofs\<close>

lemma runWithTools_protocol_failure:
  assumes "bindTools env tools = Inl e
           \<or> (\<exists>modelWithTools. bindTools env tools = Inr modelWithTools
                 \<and> modelWithTools (initialMessages systemMessage userMessage) = Inl e)"
  shows "runWithTools env stringify systemMessage userMessage tools = Inl e"
  using assms by (auto simp: runWithTools_def)

text \<open>
  Claim C2, as the code has it. In a run with a non-empty tool set in which
  \<open>bindTools\<close>, or the first \<open>invoke\<close> on the tool-bound endpoint, throws \<open>e\<close>, the
  exception is caught and the original conversation is resubmitted to the unbound
  model. The outcome of the run is the outcome of that resubmission: when it returns a
  response, the run returns the fallback result, with \<open>toolsUsed\<close> equal to 0 and the
  non-empty error text made from the message of \<open>e\<close>; when the resubmission throws, its
  exception leaves the run.
\<close>

theorem fallback_on_protocol_failure:
  assumes "tools \<noteq> []"
    and "bindTools env tools = Inl e
           \<or> (\<exists>modelWithTools. bindTools env tools = Inr modelWithTools
                 \<and> modelWithTools (initialMessages systemMessage userMessage) = Inl e)"
  shows "run env stringify systemMessage userMessage tools =
           (case invoke env (initialMessages systemMessage userMessage) of
              Inl e' \<Rightarrow> Inl e'
            | Inr response \<Rightarrow>
                Inr \<lparr>res_output = resp_content response,
                     res_intermediateSteps = [],
                     res_toolsUsed = 0,
                     res_executionType = ''direct_llm_fallback'',
                     res_toolCalls = None,
                     res_error = Some (''Tool execution failed: '' @ errorMessage e)\<rparr>)
         \<and> ''Tool execution failed: '' @ errorMessage e \<noteq> []"
  using assms(1) runWithTools_protocol_failure [OF assms(2), of stringify]
  by (simp add: run_def)

text \<open>
  The claim as stated fails when the unbound model cannot be reached either: the run
  throws.
\<close>

theorem fallback_on_protocol_failure_counterexample:
  "run unreachable_env example_stringify ''be brief'' ''what is new?'' example_tools
     = Inl (GenericError ''connection refused'')"
  by (simp add: run_def runWithTools_def unreachable_env_def example_tools_def)

theorem fallback_on_protocol_failure_witness:
  "run unbindable_env example_stringify ''be brief'' ''what is new?'' example_tools
     = Inr \<lparr>res_output = JStr ''direct answer'',
            res_intermediateSteps = [],
            res_toolsUsed = 0,
            res_executionType = ''direct_llm_fallback'',
            res_toolCalls = None,
            res_error = Some ''Tool execution failed: tool schema rejected''\<rparr>"
proof -
  have tools: "example_tools \<noteq> []"
    by (simp add: example_tools_def)
  have thrown: "bindTools unbindable_env example_tools = Inl (GenericError ''tool schema rejected'')
      \<or> (\<exists>modelWithTools. bindTools unbindable_env example_tools = Inr modelWithTools
            \<and> modelWithTools (initialMessages ''be brief'' ''what is new?'')
                = Inl (GenericError ''tool schema rejected''))"
    by (simp add: unbindable_env_def)
  from fallback_on_protocol_failure [OF tools thrown, of example_stringify]
  show ?thesis
    by (simp add: unbindable_env_def example_answer_def)
qed

lemma recorded_error: 
  "carries_error (case r of Inr toolResult \<Rightarrow> ToolSuccess i n toolResult
                      | Inl toolError \<Rightarrow> ToolFailure i n (errorMessage toolError)) = isl r"
  "carries_output (case r of Inr toolResult \<Rightarrow> ToolSuccess i n toolResult
                      | Inl toolError \<Rightarrow> ToolFailure i n (errorMessage toolError)) = (\<not> isl r)"
  by (cases r; simp)+

text \<open>
  Claim C1, as the code has it. In a round whose first response holds exactly three
  tool-call directives, each naming a tool of the bound set, where exactly one of the
  three invocations throws, the loop records exactly three results, in the order of
  the directives, exactly one of them with an error message and two with outputs, and
  the extended conversation is resubmitted. When the resubmission returns a response,
  the run returns its content with exactly these three entries as
  \<open>intermediateSteps\<close>. When the resubmission throws, the run falls back to the direct
  call, and \<open>intermediateSteps\<close> is empty.
\<close>

theorem per_tool_isolation:
  assumes bind: "bindTools env tools = Inr modelWithTools"
    and first: "modelWithTools (initialMessages systemMessage userMessage) = Inr response"
    and three: "resp_tool_calls response = Some [c1, c2, c3]"
    and present: "namedTool tools c1 = Some t1" "namedTool tools c2 = Some t2"
      "namedTool tools c3 = Some t3"
    and one_throws: "length (filter isl [toolInvoke env 0 t1 (tc_args c1),
                                         toolInvoke env 1 t2 (tc_args c2),
                                         toolInvoke env 2 t3 (tc_args c3)]) = 1"
    and steps: "steps = executeToolCalls env tools 0 [c1, c2, c3]"
  shows "length steps = 3
         \<and> length (filter carries_error steps) = 1
         \<and> length (filter carries_output steps) = 2
         \<and> map result_call_id steps = map tc_id [c1, c2, c3]
         \<and> run env stringify systemMessage userMessage tools =
             (case modelWithTools
                     (finalMessages stringify (initialMessages systemMessage userMessage) response steps) of
                Inr finalResponse \<Rightarrow>
                  Inr \<lparr>res_output = resp_content finalResponse,
                       res_intermediateSteps = steps,
                       res_toolsUsed = length tools,
                       res_executionType = ''sap_ai_core_with_tools'',
                       res_toolCalls = Some [c1, c2, c3],
                       res_error = None\<rparr>
              | Inl agentError \<Rightarrow>
                  (case invoke env (initialMessages systemMessage userMessage) of
                     Inl e \<Rightarrow> Inl e
                   | Inr direct \<Rightarrow>
                       Inr \<lparr>res_output = resp_content direct,
                            res_intermediateSteps = [],
                            res_toolsUsed = 0,
                            res_executionType = ''direct_llm_fallback'',
                            res_toolCalls = None,
                            res_error = Some (''Tool execution failed: '' @ errorMessage agentError)\<rparr>))"
proof -
  let ?o1 = "toolInvoke env 0 t1 (tc_args c1)"
  let ?o2 = "toolInvoke env 1 t2 (tc_args c2)"
  let ?o3 = "toolInvoke env 2 t3 (tc_args c3)"
  have steps_eq: "steps =
      [case ?o1 of Inr r \<Rightarrow> ToolSuccess (tc_id c1) (tc_name c1) r
                 | Inl e \<Rightarrow> ToolFailure (tc_id c1) (tc_name c1) (errorMessage e),
       case ?o2 of Inr r \<Rightarrow> ToolSuccess (tc_id c2) (tc_name c2) r
                 | Inl e \<Rightarrow> ToolFailure (tc_id c2) (tc_name c2) (errorMessage e),
       case ?o3 of Inr r \<Rightarrow> ToolSuccess (tc_id c3) (tc_name c3) r
                 | Inl e \<Rightarrow> ToolFailure (tc_id c3) (tc_name c3) (errorMessage e)]"
    unfolding steps using present
    by (simp add: namedTool_def eval_nat_numeral)
  have len: "length steps = 3" by (simp add: steps_eq)
  have errs: "length (filter carries_error steps) = 1"
    using one_throws
    by (cases "isl ?o1"; cases "isl ?o2"; cases "isl ?o3") (simp_all add: steps_eq recorded_error)
  have outs: "length (filter carries_output steps) = 2"
    using one_throws
    by (cases "isl ?o1"; cases "isl ?o2"; cases "isl ?o3") (simp_all add: steps_eq recorded_error)
  have ids: "map result_call_id steps = map tc_id [c1, c2, c3]"
    by (simp add: steps_eq split: sum.splits)
  have nonempty: "tools \<noteq> []"
    using present(1) by (auto simp: namedTool_def)
  have "runWithTools env stringify systemMessage userMessage tools =
          (case modelWithTools
                  (finalMessages stringify (initialMessages systemMessage userMessage) response steps) of
             Inl e \<Rightarrow> Inl e
           | Inr finalResponse \<Rightarrow>
               Inr \<lparr>res_output = resp_content finalResponse,
                    res_intermediateSteps = steps,
                    res_toolsUsed = length tools,
                    res_executionType = ''sap_ai_core_with_tools'',
                    res_toolCalls = Some [c1, c2, c3],
                    res_error = None\<rparr>)"
    by (simp add: runWithTools_def bind first three steps Let_def
        del: executeToolCalls.simps split: sum.splits)
  then have "run env stringify systemMessage userMessage tools =
             (case modelWithTools
                     (finalMessages stringify (initialMessages systemMessage userMessage) response steps) of
                Inr finalResponse \<Rightarrow>
                  Inr \<lparr>res_output = resp_content finalResponse,
                       res_intermediateSteps = steps,
                       res_toolsUsed = length tools,
                       res_executionType = ''sap_ai_core_with_tools'',
                       res_toolCalls = Some [c1, c2, c3],
                       res_error = None\<rparr>
              | Inl agentError \<Rightarrow>
                  (case invoke env (initialMessages systemMessage userMessage) of
                     Inl e \<Rightarrow> Inl e
                   | Inr direct \<Rightarrow>
                       Inr \<lparr>res_output = resp_content direct,
                            res_intermediateSteps = [],
                            res_toolsUsed = 0,
                            res_executionType = ''direct_llm_fallback'',
                            res_toolCalls = None,
                            res_error = Some (''Tool execution failed: '' @ errorMessage agentError)\<rparr>))"
    using nonempty by (simp add: run_def split: sum.splits)
  with len errs outs ids show ?thesis by simp
qed


text \<open>
  The claim as stated fails when the resubmission throws: the three results are
  dropped and the fallback result is returned.
\<close>

theorem per_tool_isolation_counterexample:
  "run unanswering_env example_stringify ''be brief'' ''what is new?'' example_tools
     = Inr \<lparr>res_output = JStr ''direct answer'',
            res_intermediateSteps = [],
            res_toolsUsed = 0,
            res_executionType = ''direct_llm_fallback'',
            res_toolCalls = None,
            res_error = Some ''Tool execution failed: request timed out''\<rparr>"
  by (simp add: run_def runWithTools_def unanswering_env_def unanswering_model_def
      example_tools_def example_request_def example_calls_def example_call_def
      example_tool_def example_answer_def initialMessages_def finalMessages_def)

theorem per_tool_isolation_witness:
  "run answering_env example_stringify ''be brief'' ''what is new?'' example_tools
     = Inr \<lparr>res_output = JStr ''final answer'',
            res_intermediateSteps =
              [ToolSuccess (JStr ''call_1'') (JStr ''search'') (JStr ''done''),
               ToolFailure (JStr ''call_2'') (JStr ''fetch'') ''fetch failed'',
               ToolSuccess (JStr ''call_3'') (JStr ''store'') (JStr ''done'')],
            res_toolsUsed = 3,
            res_executionType = ''sap_ai_core_with_tools'',
            res_toolCalls = Some example_calls,
            res_error = None\<rparr>"
proof -
  let ?calls = "[example_call ''call_1'' ''search'', example_call ''call_2'' ''fetch'',
                 example_call ''call_3'' ''store'']"
  let ?steps = "executeToolCalls answering_env example_tools 0 ?calls"
  have bind: "bindTools answering_env example_tools = Inr answering_model"
    by (simp add: answering_env_def)
  have first: "answering_model (initialMessages ''be brief'' ''what is new?'') = Inr example_request"
    by (simp add: answering_model_def)
  have three: "resp_tool_calls example_request = Some ?calls"
    by (simp add: example_request_def example_calls_def)
  have present:
    "namedTool example_tools (example_call ''call_1'' ''search'') = Some (example_tool ''search'')"
    "namedTool example_tools (example_call ''call_2'' ''fetch'') = Some (example_tool ''fetch'')"
    "namedTool example_tools (example_call ''call_3'' ''store'') = Some (example_tool ''store'')"
    by (simp_all add: namedTool_def example_tools_def example_call_def example_tool_def)
  have one_throws: "length (filter isl
      [toolInvoke answering_env 0 (example_tool ''search'') (tc_args (example_call ''call_1'' ''search'')),
       toolInvoke answering_env 1 (example_tool ''fetch'') (tc_args (example_call ''call_2'' ''fetch'')),
       toolInvoke answering_env 2 (example_tool ''store'') (tc_args (example_call ''call_3'' ''store''))])
      = 1"
    by (simp add: answering_env_def second_tool_throws_def)
  have recorded: "?steps =
      [ToolSuccess (JStr ''call_1'') (JStr ''search'') (JStr ''done''),
       ToolFailure (JStr ''call_2'') (JStr ''fetch'') ''fetch failed'',
       ToolSuccess (JStr ''call_3'') (JStr ''store'') (JStr ''done'')]"
    by (simp add: example_call_def example_tools_def example_tool_def
        answering_env_def second_tool_throws_def)
  have final: "answering_model
      (finalMessages example_stringify (initialMessages ''be brief'' ''what is new?'')
         example_request ?steps) = Inr (example_answer ''final answer'')"
    by (simp add: answering_model_def finalMessages_def initialMessages_def)
  from per_tool_isolation [OF bind first three present one_throws refl, of example_stringify]
  have "run answering_env example_stringify ''be brief'' ''what is new?'' example_tools =
      Inr \<lparr>res_output = resp_content (example_answer ''final answer''),
           res_intermediateSteps = ?steps,
           res_toolsUsed = length example_tools,
           res_executionType = ''sap_ai_core_with_tools'',
           res_toolCalls = Some ?calls,
           res_error = None\<rparr>"
    by (simp only: final sum.case)
  then have "run answering_env example_stringify ''be brief'' ''what is new?'' example_tools =
      Inr \<lparr>res_output = resp_content (example_answer ''final answer''),
           res_intermediateSteps =
             [ToolSuccess (JStr ''call_1'') (JStr ''search'') (JStr ''done''),
              ToolFailure (JStr ''call_2'') (JStr ''fetch'') ''fetch failed'',
              ToolSuccess (JStr ''call_3'') (JStr ''store'') (JStr ''done'')],
           res_toolsUsed = length example_tools,
           res_executionType = ''sap_ai_core_with_tools'',
           res_toolCalls = Some ?calls,
           res_error = None\<rparr>"
    by (simp only: recorded)
  then show ?thesis
    by (simp add: example_answer_def example_tools_def example_calls_def)
qed

section \<open>Call interception: proofs\<close>
























end
